theory Spec2Isabelle
  imports Complex_Main "HOL-Library.Sublist"
begin

section \<open>Values of the conversation flow\<close>

text \<open>
  Text is a \<^typ>\<open>string\<close>, read as the UTF-8 bytes of the Python \<open>str\<close>; the three
  non-ASCII characters of the templates are written as their bytes. A message is the
  dict \<open>{"role": ..., "content": ...}\<close>. The conversation state is the dict
  \<open>State\<close> of \<open>graph.py\<close>: every key may be absent, so every field is an option and
  \<open>None\<close> is the absent key. The salary is the \<open>float\<close> that the request model
  delivers; the flow only formats it and compares it with zero, so it is a real
  number here and its formatting is a capability of the environment.
\<close>

datatype exn = KeyError string | Exception string

fun str_exn :: "exn \<Rightarrow> string" where
  "str_exn (KeyError k) = [CHR 0x27] @ k @ [CHR 0x27]"
| "str_exn (Exception m) = m"

record message =
  role :: string
  content :: string

record state =
  step :: "string option"
  name :: "string option"
  salary :: "real option"
  messages :: "message list option"
  conversation_history :: "message list option"
  initial_advice :: "string option"
  followup_question :: "string option"

definition empty_state :: state where
  "empty_state = \<lparr>step = None, name = None, salary = None, messages = None,
     conversation_history = None, initial_advice = None, followup_question = None\<rparr>"

text \<open>
  The transition functions mutate the dict they are given and return it. A function
  that raises leaves the dict as it was mutated up to the raise, and the request
  handler keeps that very object in its store: \<open>Raised e s\<close> is the exception
  together with the dict at that moment.
\<close>

datatype outcome = Returned state | Raised exn state

fun state_of :: "outcome \<Rightarrow> state" where
  "state_of (Returned s) = s"
| "state_of (Raised e s) = s"

text \<open>
  What the code takes from outside: the chat model (\<open>model.invoke(...).content\<close>,
  \<open>Inl\<close> when the call or the access raises an \<open>Exception\<close>), \<open>str\<close> of a float,
  the interpreter's Unicode-aware \<open>str.lower\<close> and \<open>str.strip\<close>, the name
  extraction of \<open>main.py\<close> (regular expressions) and \<open>str(uuid.uuid4())\<close>.
\<close>

record env =
  model_invoke :: "string \<Rightarrow> exn + string"
  str_float :: "real \<Rightarrow> string"
  str_lower :: "string \<Rightarrow> string"
  str_strip :: "string \<Rightarrow> string"
  extract_name_from_text :: "string \<Rightarrow> string"
  uuid4 :: string

section \<open>String operations\<close>

text \<open>
  \<open>s.lower()\<close> and \<open>s.strip()\<close> are Unicode-aware. On a string of ASCII characters
  their value is fixed by the language: \<open>A\<close>..\<open>Z\<close> become \<open>a\<close>..\<open>z\<close>, and the ten
  ASCII whitespace characters are removed from both ends. On a string with a
  character beyond ASCII (such as U+212A KELVIN SIGN, which lowers to \<open>k\<close>, or
  U+00A0, which is stripped) the value depends on the Unicode tables of the running
  interpreter and is what the environment's \<open>str_lower\<close> and \<open>str_strip\<close> return.
  The twelve termination phrases are ASCII. \<open>p in s\<close> is \<^term>\<open>sublist p s\<close>, and
  \<open>sep.join(xs)\<close> is \<open>join\<close>.
\<close>

definition is_ascii :: "string \<Rightarrow> bool" where
  "is_ascii s = list_all (\<lambda>c. (of_char c :: nat) < 128) s"

definition isspace :: "char \<Rightarrow> bool" where
  "isspace c = (c \<in> set [CHR 0x09, CHR 0x0A, CHR 0x0B, CHR 0x0C, CHR 0x0D,
                          CHR 0x1C, CHR 0x1D, CHR 0x1E, CHR 0x1F, CHR 0x20])"

definition ascii_strip :: "string \<Rightarrow> string" where
  "ascii_strip s = rev (dropWhile isspace (rev (dropWhile isspace s)))"

definition strip :: "env \<Rightarrow> string \<Rightarrow> string" where
  "strip ev s = (if is_ascii s then ascii_strip s else str_strip ev s)"

definition lower_char :: "char \<Rightarrow> char" where
  "lower_char c =
     (let n = (of_char c :: nat) in if 65 \<le> n \<and> n \<le> 90 then char_of (n + 32) else c)"

definition ascii_lower :: "string \<Rightarrow> string" where
  "ascii_lower s = map lower_char s"

definition lower :: "env \<Rightarrow> string \<Rightarrow> string" where
  "lower ev s = (if is_ascii s then ascii_lower s else str_lower ev s)"

fun join :: "string \<Rightarrow> string list \<Rightarrow> string" where
  "join sep [] = []"
| "join sep [x] = x"
| "join sep (x # y # ys) = x @ sep @ join sep (y # ys)"

section \<open>graph.py\<close>

definition fallback :: string where
  "fallback = ''I apologize, but I'm having trouble generating personalized advice right now. Here's some general financial guidance: Consider creating a budget, building an emergency fund with 3-6 months of expenses, and investing in your retirement. Please try again later for personalized advice.''"

definition ask_gemini :: "env \<Rightarrow> string \<Rightarrow> string" where
  "ask_gemini ev prompt =
     (case model_invoke ev prompt of
        Inr response_content \<Rightarrow> strip ev response_content
      | Inl e \<Rightarrow> fallback)"

text \<open>
  \<open>state.setdefault(key, [])\<close> for the two list keys, \<open>state.get(key, [])\<close>, and
  \<open>state[key].append(m)\<close>, which the code only runs after the \<open>setdefault\<close> of the
  same key.
\<close>

definition msgs :: "state \<Rightarrow> message list" where
  "msgs s = (case messages s of None \<Rightarrow> [] | Some ms \<Rightarrow> ms)"

definition hist :: "state \<Rightarrow> message list" where
  "hist s = (case conversation_history s of None \<Rightarrow> [] | Some h \<Rightarrow> h)"

definition setdefault_messages :: "state \<Rightarrow> state" where
  "setdefault_messages s = s\<lparr>messages := Some (msgs s)\<rparr>"

definition setdefault_conversation_history :: "state \<Rightarrow> state" where
  "setdefault_conversation_history s = s\<lparr>conversation_history := Some (hist s)\<rparr>"

definition append_messages :: "message \<Rightarrow> state \<Rightarrow> state" where
  "append_messages m s = s\<lparr>messages := Some (msgs s @ [m])\<rparr>"

definition append_conversation_history :: "message \<Rightarrow> state \<Rightarrow> state" where
  "append_conversation_history m s = s\<lparr>conversation_history := Some (hist s @ [m])\<rparr>"

definition ask_name :: "state \<Rightarrow> outcome" where
  "ask_name s0 =
     (let s1 = s0\<lparr>step := Some ''ask_name''\<rparr>;
          s2 = setdefault_messages s1
      in Returned (append_messages
           \<lparr>role = ''assistant'', content = ''Hi! What is your name?''\<rparr> s2))"

definition salary_request :: "string \<Rightarrow> string" where
  "salary_request n = ''Namaste '' @ n @ ''! '' @ [CHR 0xF0, CHR 0x9F, CHR 0x91, CHR 0x8B] @ '' I'' @ [CHR 0xE2, CHR 0x80, CHR 0x99] @ ''m your friendly Indian financial advisor, here to guide you with smart budgeting, savings, investments, and insurance tips. To get started, could you please share your monthly salary?''"

definition ask_salary :: "state \<Rightarrow> outcome" where
  "ask_salary s0 =
     (let s1 = s0\<lparr>step := Some ''ask_salary''\<rparr>;
          s2 = setdefault_messages s1
      in case name s2 of
           None \<Rightarrow> Raised (KeyError ''name'') s2
         | Some n \<Rightarrow>
             Returned (append_messages
               \<lparr>role = ''assistant'', content = salary_request n\<rparr> s2))"

definition advice_prompt :: "env \<Rightarrow> string \<Rightarrow> real \<Rightarrow> string" where
  "advice_prompt ev n v = ''You are a friendly and knowledgeable Indian financial advisor. The user's name is '' @ n @ '' and their monthly salary is '' @ [CHR 0xE2, CHR 0x82, CHR 0xB9] @ str_float ev v @ ''. Analyze their salary and create a personalized, detailed money management plan. Break down their salary into percentages and rupee amounts for needs, wants, savings, investments, and insurance. Include actionable advice for: \<newline>1. Budgeting (using a 50-30-20 or similar rule)\<newline>2. Building an emergency fund\<newline>3. Suitable insurance coverage (term life, health, etc.)\<newline>4. Investment options (SIPs, PPF, ELSS, index funds)\<newline>5. Short-term and long-term savings tips\<newline>6. Practical money habits to follow in India.\<newline>Make the advice structured, clear, and motivational also End by asking if they have any other questions.''"

definition advice_summary :: "env \<Rightarrow> string \<Rightarrow> real \<Rightarrow> string \<Rightarrow> string" where
  "advice_summary ev n v advice =
     ''Initial advice given for '' @ n @ '' (salary: $'' @ str_float ev v @ ''): '' @ advice"

definition give_advice :: "env \<Rightarrow> state \<Rightarrow> outcome" where
  "give_advice ev s0 =
     (let s1 = s0\<lparr>step := Some ''advice''\<rparr>;
          s2 = setdefault_messages s1;
          s3 = setdefault_conversation_history s2
      in case name s3 of
           None \<Rightarrow> Raised (KeyError ''name'') s3
         | Some n \<Rightarrow>
            (case salary s3 of
               None \<Rightarrow> Raised (KeyError ''salary'') s3
             | Some v \<Rightarrow>
                (let advice = ask_gemini ev (advice_prompt ev n v);
                     s4 = s3\<lparr>initial_advice := Some advice\<rparr>;
                     s5 = append_conversation_history
                            \<lparr>role = ''system'', content = advice_summary ev n v advice\<rparr> s4;
                     s6 = append_messages \<lparr>role = ''assistant'', content = advice\<rparr> s5
                 in Returned (s6\<lparr>step := Some ''followup''\<rparr>))))"

definition end_phrases :: "string list" where
  "end_phrases = [''thanks'', ''thank you'', ''bye'', ''goodbye'', ''that's all'',
     ''no more questions'', ''that's enough'', ''done'', ''finish'', ''end'', ''exit'', ''quit'']"

definition wants_end :: "env \<Rightarrow> string \<Rightarrow> bool" where
  "wants_end ev user_question =
     list_ex (\<lambda>phrase. sublist phrase (lower ev user_question)) end_phrases"

definition farewell :: "string \<Rightarrow> string" where
  "farewell n = ''You're welcome, '' @ n @ ''! I'm glad I could help with your financial planning. Best of luck with your financial goals!''"

definition last3 :: "message list \<Rightarrow> message list" where
  "last3 h = drop (length h - 3) h"

definition previous_context :: "message list \<Rightarrow> string" where
  "previous_context h = join ''\<newline>'' (map (\<lambda>item. ''- '' @ content item) (last3 h))"

definition followup_context ::
  "env \<Rightarrow> string \<Rightarrow> real \<Rightarrow> string option \<Rightarrow> message list \<Rightarrow> string \<Rightarrow> string" where
  "followup_context ev n v adv h user_question = ''You are a friendly and knowledgeable Indian financial advisor. Here's the context:\<newline>- User's name: '' @ n @ ''\<newline>- Monthly salary: '' @ str_float ev v @ '' INR\<newline>- Initial advice given: '' @ (case adv of None \<Rightarrow> ''N/A'' | Some a \<Rightarrow> a) @ ''\<newline>\<newline>Previous conversation:\<newline>'' @ previous_context h @ ''\<newline>\<newline>The user is asking a follow-up question: \"'' @ user_question @ ''\"\<newline>\<newline>Provide a helpful, detailed answer that builds on the previous advice. Keep it friendly and practical. If the question is unclear, ask for clarification. End by asking if they have any other questions.''"

definition handle_followup :: "env \<Rightarrow> state \<Rightarrow> outcome" where
  "handle_followup ev s0 =
     (let s1 = s0\<lparr>step := Some ''followup''\<rparr>;
          s2 = setdefault_messages s1;
          s3 = setdefault_conversation_history s2;
          user_question = (case followup_question s3 of None \<Rightarrow> [] | Some q \<Rightarrow> q)
      in if wants_end ev user_question then
           (let s4 = s3\<lparr>step := Some ''conversation_ended''\<rparr>
            in case name s4 of
                 None \<Rightarrow> Raised (KeyError ''name'') s4
               | Some n \<Rightarrow>
                   Returned (append_messages
                     \<lparr>role = ''assistant'', content = farewell n\<rparr> s4))
         else
           (case name s3 of
              None \<Rightarrow> Raised (KeyError ''name'') s3
            | Some n \<Rightarrow>
               (case salary s3 of
                  None \<Rightarrow> Raised (KeyError ''salary'') s3
                | Some v \<Rightarrow>
                   (let context = followup_context ev n v (initial_advice s3) (hist s3)
                                    user_question;
                        followup_response = ask_gemini ev context;
                        s4 = append_conversation_history
                               \<lparr>role = ''user'',
                                content = ''Follow-up question: '' @ user_question\<rparr> s3;
                        s5 = append_conversation_history
                               \<lparr>role = ''assistant'',
                                content = ''Follow-up response: '' @ followup_response\<rparr> s4
                    in Returned (append_messages
                         \<lparr>role = ''assistant'', content = followup_response\<rparr> s5)))))"

section \<open>main.py\<close>

text \<open>
  The request body \<open>UserInput\<close>, the reply dict (the key \<open>conversation_ended\<close> is
  only present, and then true, in the final reply) and \<open>HTTPException\<close> with its
  status code and detail. The store \<open>conversation_states\<close> is a map from the
  conversation identifier to the state; \<open>chat\<close> returns what the handler returns or
  raises, together with the store it leaves behind. A state fetched from the store
  is the stored object itself, so what a transition did to it before raising is in
  the store afterwards.
\<close>

record user_input =
  ui_name :: "string option"
  ui_salary :: "real option"
  ui_conversation_id :: "string option"
  ui_followup_question :: "string option"

record response =
  r_messages :: "message list"
  r_step :: "string option"
  r_conversation_id :: string
  r_conversation_ended :: bool

datatype http_exception = HTTPException nat string

definition reply :: "state \<Rightarrow> string option \<Rightarrow> string \<Rightarrow> response" where
  "reply s st conversation_id =
     \<lparr>r_messages = msgs s, r_step = st, r_conversation_id = conversation_id,
      r_conversation_ended = False\<rparr>"

definition final_response :: "state \<Rightarrow> string \<Rightarrow> response" where
  "final_response s conversation_id =
     \<lparr>r_messages = msgs s, r_step = Some ''conversation_ended'',
      r_conversation_id = conversation_id, r_conversation_ended = True\<rparr>"

definition chat ::
  "env \<Rightarrow> (string \<rightharpoonup> state) \<Rightarrow> user_input
     \<Rightarrow> (http_exception + response) \<times> (string \<rightharpoonup> state)" where
  "chat ev conversation_states inp =
     (let conversation_id =
            (case ui_conversation_id inp of
               None \<Rightarrow> uuid4 ev
             | Some c \<Rightarrow> if c = [] then uuid4 ev else c);
          st = (case conversation_states conversation_id of
                  None \<Rightarrow> empty_state
                | Some s \<Rightarrow> s)
      in if st = empty_state then
           (case ask_name empty_state of
              Returned s \<Rightarrow>
                (Inr (reply s (step s) conversation_id),
                 conversation_states(conversation_id \<mapsto> s))
            | Raised e s \<Rightarrow>
                (Inl (HTTPException 500 (''Error starting conversation: '' @ str_exn e)),
                 conversation_states))
         else if step st = Some ''ask_name'' then
           (case ui_name inp of
              None \<Rightarrow> (Inr (reply st (step st) conversation_id), conversation_states)
            | Some text \<Rightarrow>
               (case ask_salary (st\<lparr>name := Some (extract_name_from_text ev text)\<rparr>) of
                  Returned s \<Rightarrow>
                    (Inr (reply s (step s) conversation_id),
                     conversation_states(conversation_id \<mapsto> s))
                | Raised e s \<Rightarrow>
                    (Inl (HTTPException 500 (''Error processing name: '' @ str_exn e)),
                     conversation_states(conversation_id \<mapsto> s))))
         else if step st = Some ''ask_salary'' then
           (case ui_salary inp of
              None \<Rightarrow> (Inr (reply st (step st) conversation_id), conversation_states)
            | Some v \<Rightarrow>
               if v \<le> 0 then
                 (Inl (HTTPException 400 ''Please provide a valid positive salary amount''),
                  conversation_states)
               else
                (case give_advice ev (st\<lparr>salary := Some v\<rparr>) of
                   Returned s \<Rightarrow>
                     (Inr (reply s (step s) conversation_id),
                      conversation_states(conversation_id \<mapsto> s))
                 | Raised e s \<Rightarrow>
                     (Inl (HTTPException 500 (''Error generating advice: '' @ str_exn e)),
                      conversation_states(conversation_id \<mapsto> s))))
         else if step st = Some ''followup'' then
           (case ui_followup_question inp of
              None \<Rightarrow> (Inr (reply st (step st) conversation_id), conversation_states)
            | Some q \<Rightarrow>
               (case handle_followup ev (st\<lparr>followup_question := Some q\<rparr>) of
                  Returned s \<Rightarrow>
                    if step s = Some ''conversation_ended'' then
                      (Inr (final_response s conversation_id),
                       conversation_states(conversation_id := None))
                    else
                      (Inr (reply s (step s) conversation_id),
                       conversation_states(conversation_id \<mapsto> s))
                | Raised e s \<Rightarrow>
                    (Inl (HTTPException 500 (''Error handling follow-up: '' @ str_exn e)),
                     conversation_states(conversation_id \<mapsto> s))))
         else if step st = Some ''conversation_ended'' then
           (Inr (final_response st conversation_id),
            conversation_states(conversation_id := None))
         else
           (Inl (HTTPException 400
                   ''Invalid conversation state. Please start a new conversation.''),
            conversation_states(conversation_id := None)))"

section \<open>graph.py on dict and list objects\<close>





















section \<open>Example conversations\<close>

text \<open>
  Concrete environments and states on which the theorems below are instantiated: a
  chat model that answers, one that always raises, the state of a user who has
  given name and salary, and the same user after the advice, asking a question.
  The \<open>str_lower\<close> of the example environment lowers the ASCII letters and the
  Kelvin sign (the bytes \<open>E2 84 AA\<close>); \<open>kelvin_thanks\<close> is \<open>than\<close>, the Kelvin
  sign, \<open>s\<close>.
\<close>

fun kelvin_lower :: "string \<Rightarrow> string" where
  "kelvin_lower (a # b # c # s) =
     (if a = CHR 0xE2 \<and> b = CHR 0x84 \<and> c = CHR 0xAA then CHR ''k'' # kelvin_lower s
      else lower_char a # kelvin_lower (b # c # s))"
| "kelvin_lower s = map lower_char s"

definition demo_env :: env where
  "demo_env = \<lparr>model_invoke = (\<lambda>prompt. Inr '' Save more. ''),
     str_float = (\<lambda>v. ''50000.0''), str_lower = kelvin_lower, str_strip = ascii_strip,
     extract_name_from_text = (\<lambda>t. t), uuid4 = ''c-1''\<rparr>"

definition kelvin_thanks :: string where
  "kelvin_thanks = ''than'' @ [CHR 0xE2, CHR 0x84, CHR 0xAA] @ ''s''"

definition failing_env :: env where
  "failing_env = demo_env\<lparr>model_invoke := (\<lambda>prompt. Inl (Exception ''timeout''))\<rparr>"

definition asha :: state where
  "asha = empty_state\<lparr>step := Some ''ask_salary'', name := Some ''Asha'',
     salary := Some 50000,
     messages := Some [\<lparr>role = ''assistant'', content = ''Hi! What is your name?''\<rparr>,
                       \<lparr>role = ''assistant'', content = salary_request ''Asha''\<rparr>]\<rparr>"

definition asha_asks :: "string \<Rightarrow> state" where
  "asha_asks q = asha\<lparr>step := Some ''followup'',
     messages := Some (msgs asha @ [\<lparr>role = ''assistant'', content = ''Save more.''\<rparr>]),
     conversation_history := Some [\<lparr>role = ''system'',
        content = ''Initial advice given for Asha (salary: $50000.0): Save more.''\<rparr>],
     initial_advice := Some ''Save more.'',
     followup_question := Some q\<rparr>"

text \<open>
  A service that returns its prompt, a later state of the same conversation with
  five history entries, and the prompt that this state and the question
  \<open>and gold?\<close> give.
\<close>

definition echo_env :: env where
  "echo_env = demo_env\<lparr>model_invoke := (\<lambda>prompt. Inr prompt)\<rparr>"

definition asha_later :: "string \<Rightarrow> state" where
  "asha_later q = (asha_asks q)\<lparr>conversation_history := Some
     [\<lparr>role = ''system'', content = ''Initial advice given for Asha (salary: $50000.0): Save more.''\<rparr>,
      \<lparr>role = ''user'', content = ''Follow-up question: what about tax saving?''\<rparr>,
      \<lparr>role = ''assistant'', content = ''Follow-up response: Use ELSS.''\<rparr>,
      \<lparr>role = ''user'', content = ''Follow-up question: and insurance?''\<rparr>,
      \<lparr>role = ''assistant'', content = ''Follow-up response: Buy term cover.''\<rparr>]\<rparr>"

definition asha_prompt :: string where
  "asha_prompt = ''You are a friendly and knowledgeable Indian financial advisor. Here's the context:\<newline>- User's name: Asha\<newline>- Monthly salary: 50000.0 INR\<newline>- Initial advice given: Save more.\<newline>\<newline>Previous conversation:\<newline>- Follow-up response: Use ELSS.\<newline>- Follow-up question: and insurance?\<newline>- Follow-up response: Buy term cover.\<newline>\<newline>The user is asking a follow-up question: \"and gold?\"\<newline>\<newline>Provide a helpful, detailed answer that builds on the previous advice. Keep it friendly and practical. If the question is unclear, ask for clarification. End by asking if they have any other questions.''"




definition request :: "string \<Rightarrow> string option \<Rightarrow> user_input" where
  "request c q = \<lparr>ui_name = None, ui_salary = None, ui_conversation_id = Some c,
     ui_followup_question = q\<rparr>"

section \<open>Effects of the transitions\<close>

lemmas graph_defs = Let_def setdefault_messages_def setdefault_conversation_history_def
  append_messages_def append_conversation_history_def msgs_def hist_def

lemma wants_end_iff:
  "wants_end ev q \<longleftrightarrow> (\<exists>p \<in> set end_phrases. \<exists>u v. lower ev q = u @ p @ v)"
  by (auto simp: wants_end_def list_ex_iff sublist_def)

lemma handle_followup_ended:
  assumes "name s = Some n" "wants_end ev q"
    and "q = (case followup_question s of None \<Rightarrow> [] | Some x \<Rightarrow> x)"
  shows "handle_followup ev s =
    Returned (s\<lparr>step := Some ''conversation_ended'',
                 messages := Some (msgs s @ [\<lparr>role = ''assistant'', content = farewell n\<rparr>]),
                 conversation_history := Some (hist s)\<rparr>)"
  using assms by (simp add: handle_followup_def graph_defs split: option.splits)

lemma handle_followup_answer:
  assumes "name s = Some n" "salary s = Some v" "\<not> wants_end ev q"
    and "q = (case followup_question s of None \<Rightarrow> [] | Some x \<Rightarrow> x)"
  shows "handle_followup ev s =
    Returned (s\<lparr>step := Some ''followup'',
       messages := Some (msgs s @
          [\<lparr>role = ''assistant'',
            content = ask_gemini ev (followup_context ev n v (initial_advice s) (hist s) q)\<rparr>]),
       conversation_history := Some (hist s @
          [\<lparr>role = ''user'', content = ''Follow-up question: '' @ q\<rparr>,
           \<lparr>role = ''assistant'', content = ''Follow-up response: '' @
               ask_gemini ev (followup_context ev n v (initial_advice s) (hist s) q)\<rparr>])\<rparr>)"
  using assms by (simp add: handle_followup_def graph_defs split: option.splits)

lemma handle_followup_step:
  "step (state_of (handle_followup ev s)) =
     (if wants_end ev (case followup_question s of None \<Rightarrow> [] | Some q \<Rightarrow> q)
      then Some ''conversation_ended'' else Some ''followup'')"
  by (simp add: handle_followup_def graph_defs split: option.splits)

lemma handle_followup_frame:
  "name (state_of (handle_followup ev s)) = name s
   \<and> salary (state_of (handle_followup ev s)) = salary s"
  by (simp add: handle_followup_def graph_defs split: option.splits)

lemma handle_followup_iterated_frame:
  "name (((\<lambda>x. state_of (handle_followup ev x)) ^^ k) s) = name s
   \<and> salary (((\<lambda>x. state_of (handle_followup ev x)) ^^ k) s) = salary s"
  by (induction k) (simp_all add: handle_followup_frame)

lemma give_advice_result:
  assumes "name s = Some n" "salary s = Some v"
  shows "give_advice ev s =
    Returned (s\<lparr>step := Some ''followup'',
       messages := Some (msgs s @
          [\<lparr>role = ''assistant'', content = ask_gemini ev (advice_prompt ev n v)\<rparr>]),
       conversation_history := Some (hist s @
          [\<lparr>role = ''system'',
            content = advice_summary ev n v (ask_gemini ev (advice_prompt ev n v))\<rparr>]),
       initial_advice := Some (ask_gemini ev (advice_prompt ev n v))\<rparr>)"
  using assms by (simp add: give_advice_def graph_defs)

lemma sublist_farewell: "sublist n (farewell n)"
  unfolding farewell_def by (rule sublist_appendI)

lemma farewell_nonempty: "farewell n \<noteq> []"
  by (simp add: farewell_def)

lemma fallback_nonempty: "fallback \<noteq> []"
  by (simp add: fallback_def)

lemma wants_end_ascii:
  "is_ascii q \<Longrightarrow>
     wants_end ev q = list_ex (\<lambda>phrase. sublist phrase (ascii_lower q)) end_phrases"
  by (simp add: wants_end_def lower_def)

lemma thanks_a_lot: "wants_end ev ''thanks a lot!''"
proof -
  have a: "is_ascii ''thanks a lot!''" by code_simp
  have b: "list_ex (\<lambda>phrase. sublist phrase (ascii_lower ''thanks a lot!'')) end_phrases"
    by code_simp
  from a b show ?thesis by (simp add: wants_end_ascii)
qed

lemma thanks_upper_case: "wants_end ev ''THANKS a lot!''"
proof -
  have a: "is_ascii ''THANKS a lot!''" by code_simp
  have b: "list_ex (\<lambda>phrase. sublist phrase (ascii_lower ''THANKS a lot!'')) end_phrases"
    by code_simp
  from a b show ?thesis by (simp add: wants_end_ascii)
qed

lemma thanks_kelvin: "wants_end demo_env kelvin_thanks"
proof -
  have a: "\<not> is_ascii kelvin_thanks" by code_simp
  have b: "kelvin_lower kelvin_thanks = ''thanks''"
    by (simp add: kelvin_thanks_def lower_char_def)
  have c: "list_ex (\<lambda>phrase. sublist phrase ''thanks'') end_phrases" by code_simp
  from a b c show ?thesis by (simp add: wants_end_def lower_def demo_env_def)
qed

lemma ask_gemini_failure: "model_invoke ev p = Inl e \<Longrightarrow> ask_gemini ev p = fallback"
  by (simp add: ask_gemini_def)

lemma ask_gemini_all_fail:
  assumes "\<forall>p. \<exists>e. model_invoke ev p = Inl e"
  shows "ask_gemini ev p = fallback"
proof -
  from assms obtain e where "model_invoke ev p = Inl e" by blast
  then show ?thesis by (rule ask_gemini_failure)
qed

lemma tax_saving: "\<not> wants_end ev ''what about tax saving?''"
proof -
  have a: "is_ascii ''what about tax saving?''" by code_simp
  have b: "\<not> list_ex (\<lambda>phrase. sublist phrase (ascii_lower ''what about tax saving?''))
              end_phrases"
    by code_simp
  from a b show ?thesis by (simp add: wants_end_ascii)
qed

lemma empty_question: "\<not> wants_end ev []"
  by (simp add: wants_end_def end_phrases_def lower_def is_ascii_def ascii_lower_def)

lemma previous_context_cases:
  "previous_context [] = []"
  "previous_context [e1] = ''- '' @ content e1"
  "previous_context [e1, e2] = ''- '' @ content e1 @ ''\<newline>- '' @ content e2"
  "previous_context (older @ [e1, e2, e3]) =
     ''- '' @ content e1 @ ''\<newline>- '' @ content e2 @ ''\<newline>- '' @ content e3"
  by (simp_all add: previous_context_def last3_def)

lemma gold: "\<not> wants_end ev ''and gold?''"
proof -
  have a: "is_ascii ''and gold?''" by code_simp
  have b: "\<not> list_ex (\<lambda>phrase. sublist phrase (ascii_lower ''and gold?'')) end_phrases"
    by code_simp
  from a b show ?thesis by (simp add: wants_end_ascii)
qed

lemma echo_asha_prompt: "ask_gemini echo_env asha_prompt = asha_prompt"
proof -
  have a: "is_ascii asha_prompt" by code_simp
  have b: "ascii_strip asha_prompt = asha_prompt" by code_simp
  from a b show ?thesis by (simp add: ask_gemini_def echo_env_def strip_def)
qed











section \<open>The claims\<close>

text \<open>
  C1. For a state with \<open>name\<close> set and any follow-up question \<open>q\<close>, the step after
  \<open>handle_followup\<close> is \<open>conversation_ended\<close> exactly when \<open>q.lower()\<close> contains one
  of the twelve termination phrases as a substring, and exactly then the call
  returns with one farewell message appended to \<open>messages\<close> and nothing appended to
  \<open>conversation_history\<close>. The farewell contains the name. The question
  \<open>thanks a lot!\<close> ends the conversation, and the phrases are the twelve of the
  specification. This holds whatever the interpreter's
  lowercasing does beyond ASCII; the examples after the theorem are the question of
  the claim, a question in capitals, and one whose \<open>k\<close> is the Kelvin sign.
\<close>

theorem handle_followup_terminates_iff_phrase:
  assumes "name s = Some n" and "followup_question s = Some q"
  shows "(step (state_of (handle_followup ev s)) = Some ''conversation_ended''
            \<longleftrightarrow> (\<exists>p \<in> set end_phrases. \<exists>u v. lower ev q = u @ p @ v))
       \<and> ((\<exists>p \<in> set end_phrases. \<exists>u v. lower ev q = u @ p @ v) \<longleftrightarrow>
            (\<exists>s'. handle_followup ev s = Returned s'
               \<and> step s' = Some ''conversation_ended''
               \<and> msgs s' = msgs s @ [\<lparr>role = ''assistant'', content = farewell n\<rparr>]
               \<and> hist s' = hist s))
       \<and> sublist n (farewell n)
       \<and> (q = ''thanks a lot!'' \<longrightarrow>
             step (state_of (handle_followup ev s)) = Some ''conversation_ended'')
       \<and> end_phrases = [''thanks'', ''thank you'', ''bye'', ''goodbye'', ''that's all'',
            ''no more questions'', ''that's enough'', ''done'', ''finish'', ''end'', ''exit'',
            ''quit'']"
proof -
  let ?m = "\<exists>p \<in> set end_phrases. \<exists>u v. lower ev q = u @ p @ v"
  have ph: "end_phrases = [''thanks'', ''thank you'', ''bye'', ''goodbye'', ''that's all'',
            ''no more questions'', ''that's enough'', ''done'', ''finish'', ''end'', ''exit'',
            ''quit'']"
    by (simp add: end_phrases_def)
  let ?eff = "\<exists>s'. handle_followup ev s = Returned s'
               \<and> step s' = Some ''conversation_ended''
               \<and> msgs s' = msgs s @ [\<lparr>role = ''assistant'', content = farewell n\<rparr>]
               \<and> hist s' = hist s"
  have st: "step (state_of (handle_followup ev s)) = Some ''conversation_ended'' \<longleftrightarrow> ?m"
    using assms(2) by (simp add: handle_followup_step wants_end_iff)
  have fwd: ?eff if ?m
  proof -
    from that have w: "wants_end ev q" by (simp add: wants_end_iff)
    have q: "q = (case followup_question s of None \<Rightarrow> [] | Some x \<Rightarrow> x)"
      using assms(2) by simp
    from handle_followup_ended [OF assms(1) w q] show ?thesis
      by (simp add: msgs_def hist_def)
  qed
  have bwd: ?m if ?eff
  proof -
    from that obtain s' where "handle_followup ev s = Returned s'"
      and "step s' = Some ''conversation_ended''" by blast
    then have "step (state_of (handle_followup ev s)) = Some ''conversation_ended''" by simp
    with st show ?thesis by simp
  qed
  have ex: "step (state_of (handle_followup ev s)) = Some ''conversation_ended''"
    if "q = ''thanks a lot!''"
    using that assms(2) thanks_a_lot by (simp add: handle_followup_step)
  from st fwd bwd ex sublist_farewell ph show ?thesis by blast
qed

theorem handle_followup_terminates_iff_phrase_witness:
  "name (asha_asks ''thanks a lot!'') = Some ''Asha''
   \<and> followup_question (asha_asks ''thanks a lot!'') = Some ''thanks a lot!''
   \<and> (\<exists>p \<in> set end_phrases. \<exists>u v. lower demo_env ''thanks a lot!'' = u @ p @ v)
   \<and> step (state_of (handle_followup demo_env (asha_asks ''thanks a lot!'')))
       = Some ''conversation_ended''
   \<and> name (asha_asks ''THANKS a lot!'') = Some ''Asha''
   \<and> followup_question (asha_asks ''THANKS a lot!'') = Some ''THANKS a lot!''
   \<and> step (state_of (handle_followup demo_env (asha_asks ''THANKS a lot!'')))
       = Some ''conversation_ended''
   \<and> name (asha_asks kelvin_thanks) = Some ''Asha''
   \<and> followup_question (asha_asks kelvin_thanks) = Some kelvin_thanks
   \<and> step (state_of (handle_followup demo_env (asha_asks kelvin_thanks)))
       = Some ''conversation_ended''
   \<and> name (asha_asks ''what about tax saving?'') = Some ''Asha''
   \<and> followup_question (asha_asks ''what about tax saving?'')
       = Some ''what about tax saving?''
   \<and> step (state_of (handle_followup demo_env (asha_asks ''what about tax saving?'')))
       \<noteq> Some ''conversation_ended''"
proof -
  have n: "name (asha_asks x) = Some ''Asha''"
    and q: "followup_question (asha_asks x) = Some x" for x
    by (simp_all add: asha_asks_def asha_def)
  have 1: "(\<exists>p \<in> set end_phrases. \<exists>u v. lower demo_env ''thanks a lot!'' = u @ p @ v)
     \<and> step (state_of (handle_followup demo_env (asha_asks ''thanks a lot!'')))
         = Some ''conversation_ended''"
    using handle_followup_terminates_iff_phrase
        [OF n [of "''thanks a lot!''"] q [of "''thanks a lot!''"], where ev = demo_env] by blast
  have 2: "step (state_of (handle_followup demo_env (asha_asks ''THANKS a lot!'')))
         = Some ''conversation_ended''"
    using handle_followup_terminates_iff_phrase
        [OF n [of "''THANKS a lot!''"] q [of "''THANKS a lot!''"], where ev = demo_env] thanks_upper_case [of demo_env]
    by (simp add: wants_end_iff)
  have 3: "step (state_of (handle_followup demo_env (asha_asks kelvin_thanks)))
         = Some ''conversation_ended''"
    using handle_followup_terminates_iff_phrase
        [OF n [of kelvin_thanks] q [of kelvin_thanks], where ev = demo_env] thanks_kelvin by (simp add: wants_end_iff)
  have 4: "step (state_of (handle_followup demo_env (asha_asks ''what about tax saving?'')))
         \<noteq> Some ''conversation_ended''"
    using handle_followup_terminates_iff_phrase
        [OF n [of "''what about tax saving?''"] q [of "''what about tax saving?''"], where ev = demo_env] tax_saving [of demo_env]
    by (simp add: wants_end_iff)
  from 1 2 3 4 n q show ?thesis by simp
qed



text \<open>
  C3. \<open>ask_gemini\<close> yields a string for every prompt; when the service raises, that
  string is the fixed fallback, which is not empty. So when the service raises on
  every prompt and \<open>name\<close> and \<open>salary\<close> are set, \<open>give_advice\<close> returns with the
  fallback as advice, and \<open>handle_followup\<close> returns with a non-empty last message,
  which is the fallback whenever the conversation goes on.
\<close>

theorem ask_gemini_never_propagates:
  "(model_invoke ev prompt = Inl e \<longrightarrow> ask_gemini ev prompt = fallback)
   \<and> fallback \<noteq> []
   \<and> ((\<forall>p. \<exists>e. model_invoke ev p = Inl e) \<and> name s = Some n \<and> salary s = Some v \<longrightarrow>
        (\<exists>s'. give_advice ev s = Returned s' \<and> initial_advice s' = Some fallback
             \<and> msgs s' = msgs s @ [\<lparr>role = ''assistant'', content = fallback\<rparr>])
      \<and> (\<exists>s' answer. handle_followup ev s = Returned s'
             \<and> msgs s' = msgs s @ [\<lparr>role = ''assistant'', content = answer\<rparr>]
             \<and> answer \<noteq> []
             \<and> (step s' = Some ''followup'' \<longrightarrow> answer = fallback)))"
proof -
  have adv: "\<exists>s'. give_advice ev s = Returned s' \<and> initial_advice s' = Some fallback
             \<and> msgs s' = msgs s @ [\<lparr>role = ''assistant'', content = fallback\<rparr>]"
    if "\<forall>p. \<exists>e. model_invoke ev p = Inl e" "name s = Some n" "salary s = Some v"
    using give_advice_result [OF that(2,3), of ev] ask_gemini_all_fail [OF that(1)]
    by (simp add: msgs_def)
  have fol: "\<exists>s' answer. handle_followup ev s = Returned s'
             \<and> msgs s' = msgs s @ [\<lparr>role = ''assistant'', content = answer\<rparr>]
             \<and> answer \<noteq> []
             \<and> (step s' = Some ''followup'' \<longrightarrow> answer = fallback)"
    if all: "\<forall>p. \<exists>e. model_invoke ev p = Inl e" and n: "name s = Some n"
      and v: "salary s = Some v"
  proof (cases "wants_end ev (case followup_question s of None \<Rightarrow> [] | Some x \<Rightarrow> x)")
    case True
    from handle_followup_ended [OF n True refl] show ?thesis
      by (simp add: msgs_def farewell_nonempty)
  next
    case False
    from handle_followup_answer [OF n v False refl] ask_gemini_all_fail [OF all]
    show ?thesis by (simp add: msgs_def fallback_nonempty)
  qed
  from adv fol fallback_nonempty show ?thesis
    by (simp add: ask_gemini_failure)
qed

theorem ask_gemini_never_propagates_witness:
  "model_invoke failing_env ''plan'' = Inl (Exception ''timeout'')
   \<and> ask_gemini failing_env ''plan'' = fallback
   \<and> (\<forall>p. \<exists>e. model_invoke failing_env p = Inl e)
   \<and> name asha = Some ''Asha'' \<and> salary asha = Some 50000
   \<and> (\<exists>s'. give_advice failing_env asha = Returned s' \<and> initial_advice s' = Some fallback)
   \<and> (\<exists>s' answer. handle_followup failing_env asha = Returned s'
         \<and> msgs s' = msgs asha @ [\<lparr>role = ''assistant'', content = answer\<rparr>]
         \<and> answer \<noteq> [])"
proof -
  have f: "model_invoke failing_env p = Inl (Exception ''timeout'')" for p
    by (simp add: failing_env_def demo_env_def)
  have n: "name asha = Some ''Asha''" and v: "salary asha = Some 50000"
    by (simp_all add: asha_def)
  from f have all: "\<forall>p. \<exists>e. model_invoke failing_env p = Inl e" by blast
  from ask_gemini_never_propagates
    [of failing_env "''plan''" "Exception ''timeout''" asha "''Asha''" 50000] f all n v
  show ?thesis by blast
qed

text \<open>
  C4. For every state and each of the four transitions, the messages before the call
  are a prefix of the messages after it, whether the call returns or raises; so the
  length of \<open>messages\<close> never decreases.
\<close>

theorem messages_append_only:
  "prefix (msgs s) (msgs (state_of (ask_name s)))
   \<and> prefix (msgs s) (msgs (state_of (ask_salary s)))
   \<and> prefix (msgs s) (msgs (state_of (give_advice ev s)))
   \<and> prefix (msgs s) (msgs (state_of (handle_followup ev s)))
   \<and> length (msgs s) \<le> length (msgs (state_of (ask_name s)))
   \<and> length (msgs s) \<le> length (msgs (state_of (ask_salary s)))
   \<and> length (msgs s) \<le> length (msgs (state_of (give_advice ev s)))
   \<and> length (msgs s) \<le> length (msgs (state_of (handle_followup ev s)))"
proof -
  have 1: "prefix (msgs s) (msgs (state_of (ask_name s)))"
    by (simp add: ask_name_def graph_defs)
  have 2: "prefix (msgs s) (msgs (state_of (ask_salary s)))"
    by (simp add: ask_salary_def graph_defs split: option.splits)
  have 3: "prefix (msgs s) (msgs (state_of (give_advice ev s)))"
    by (simp add: give_advice_def graph_defs split: option.splits)
  have 4: "prefix (msgs s) (msgs (state_of (handle_followup ev s)))"
    by (simp add: handle_followup_def graph_defs split: option.splits)
  from 1 2 3 4 show ?thesis by (simp add: prefix_length_le)
qed

text \<open>
  C5. For a state with \<open>name\<close> and \<open>salary\<close> set, \<open>ask_salary\<close>, \<open>give_advice\<close> and
  \<open>handle_followup\<close> leave both fields as they are, and so does any number of
  repeated \<open>handle_followup\<close> calls.
\<close>

theorem name_salary_never_overwritten:
  assumes "name s = Some n" and "salary s = Some v"
  shows "name (state_of (ask_salary s)) = Some n \<and> salary (state_of (ask_salary s)) = Some v
   \<and> name (state_of (give_advice ev s)) = Some n \<and> salary (state_of (give_advice ev s)) = Some v
   \<and> name (state_of (handle_followup ev s)) = Some n
   \<and> salary (state_of (handle_followup ev s)) = Some v
   \<and> name (((\<lambda>x. state_of (handle_followup ev x)) ^^ k) s) = Some n
   \<and> salary (((\<lambda>x. state_of (handle_followup ev x)) ^^ k) s) = Some v"
proof -
  have 1: "name (state_of (ask_salary s)) = name s \<and> salary (state_of (ask_salary s)) = salary s"
    by (simp add: ask_salary_def graph_defs split: option.splits)
  have 2: "name (state_of (give_advice ev s)) = name s
     \<and> salary (state_of (give_advice ev s)) = salary s"
    by (simp add: give_advice_def graph_defs split: option.splits)
  from 1 2 handle_followup_frame [of ev s]
    handle_followup_iterated_frame [where ev = ev and k = k and s = s] assms
  show ?thesis by simp
qed

theorem name_salary_never_overwritten_witness:
  "name (asha_asks ''and gold?'') = Some ''Asha''
   \<and> salary (asha_asks ''and gold?'') = Some 50000
   \<and> name (((\<lambda>x. state_of (handle_followup demo_env x)) ^^ 2) (asha_asks ''and gold?''))
       = Some ''Asha''
   \<and> salary (((\<lambda>x. state_of (handle_followup demo_env x)) ^^ 2) (asha_asks ''and gold?''))
       = Some 50000"
proof -
  have n: "name (asha_asks ''and gold?'') = Some ''Asha''"
    and v: "salary (asha_asks ''and gold?'') = Some 50000"
    by (simp_all add: asha_asks_def asha_def)
  from name_salary_never_overwritten [OF n v, of demo_env 2] n v show ?thesis
    by blast
qed

text \<open>
  C6. For a state with \<open>name\<close>, \<open>salary\<close> and \<open>initial_advice\<close> set and a question
  that matches no termination phrase, \<open>handle_followup\<close> returns with step
  \<open>followup\<close>, the question and then the answer appended to
  \<open>conversation_history\<close> (two entries) and the answer appended to \<open>messages\<close> (one
  entry). The answer is the completion of the text written out below: the template
  with \<open>name\<close>, the formatted \<open>salary\<close>, \<open>initial_advice\<close>, the bullet lines of
  the previous conversation and the question in their places. The bullet lines are
  those of the last three history entries, in order, and of no earlier entry; a
  history of two, one or no entries gives two, one or no lines. In the example the
  service returns its prompt, so the appended message shows the context itself.
\<close>

theorem handle_followup_answers_question:
  assumes "name s = Some n" and "salary s = Some v" and "initial_advice s = Some a"
    and "followup_question s = Some q" and "\<not> wants_end ev q"
  shows "\<exists>s' answer prev. handle_followup ev s = Returned s'
     \<and> step s' = Some ''followup''
     \<and> hist s' = hist s @ [\<lparr>role = ''user'', content = ''Follow-up question: '' @ q\<rparr>,
                            \<lparr>role = ''assistant'', content = ''Follow-up response: '' @ answer\<rparr>]
     \<and> length (hist s') = length (hist s) + 2
     \<and> msgs s' = msgs s @ [\<lparr>role = ''assistant'', content = answer\<rparr>]
     \<and> length (msgs s') = length (msgs s) + 1
     \<and> answer = ask_gemini ev (''You are a friendly and knowledgeable Indian financial advisor. Here's the context:\<newline>- User's name: '' @ n @ ''\<newline>- Monthly salary: '' @ str_float ev v @ '' INR\<newline>- Initial advice given: '' @ a @ ''\<newline>\<newline>Previous conversation:\<newline>'' @ prev @ ''\<newline>\<newline>The user is asking a follow-up question: \"'' @ q @ ''\"\<newline>\<newline>Provide a helpful, detailed answer that builds on the previous advice. Keep it friendly and practical. If the question is unclear, ask for clarification. End by asking if they have any other questions.'')
     \<and> (\<forall>older e1 e2 e3. hist s = older @ [e1, e2, e3] \<longrightarrow>
           prev = ''- '' @ content e1 @ ''\<newline>- '' @ content e2 @ ''\<newline>- '' @ content e3)
     \<and> (\<forall>e1 e2. hist s = [e1, e2] \<longrightarrow>
           prev = ''- '' @ content e1 @ ''\<newline>- '' @ content e2)
     \<and> (\<forall>e1. hist s = [e1] \<longrightarrow> prev = ''- '' @ content e1)
     \<and> (hist s = [] \<longrightarrow> prev = [])"
proof -
  have q: "q = (case followup_question s of None \<Rightarrow> [] | Some x \<Rightarrow> x)"
    using assms(4) by simp
  let ?prev = "previous_context (hist s)"
  let ?answer = "ask_gemini ev (followup_context ev n v (Some a) (hist s) q)"
  let ?s' = "s\<lparr>step := Some ''followup'',
       messages := Some (msgs s @ [\<lparr>role = ''assistant'', content = ?answer\<rparr>]),
       conversation_history := Some (hist s @
          [\<lparr>role = ''user'', content = ''Follow-up question: '' @ q\<rparr>,
           \<lparr>role = ''assistant'', content = ''Follow-up response: '' @ ?answer\<rparr>])\<rparr>"
  have c: "?answer = ask_gemini ev (''You are a friendly and knowledgeable Indian financial advisor. Here's the context:\<newline>- User's name: '' @ n @ ''\<newline>- Monthly salary: '' @ str_float ev v @ '' INR\<newline>- Initial advice given: '' @ a @ ''\<newline>\<newline>Previous conversation:\<newline>'' @ ?prev @ ''\<newline>\<newline>The user is asking a follow-up question: \"'' @ q @ ''\"\<newline>\<newline>Provide a helpful, detailed answer that builds on the previous advice. Keep it friendly and practical. If the question is unclear, ask for clarification. End by asking if they have any other questions.'')"
    by (simp add: followup_context_def)
  have p3: "\<forall>older e1 e2 e3. hist s = older @ [e1, e2, e3] \<longrightarrow>
           ?prev = ''- '' @ content e1 @ ''\<newline>- '' @ content e2 @ ''\<newline>- '' @ content e3"
    by (simp add: previous_context_cases)
  have p2: "\<forall>e1 e2. hist s = [e1, e2] \<longrightarrow>
           ?prev = ''- '' @ content e1 @ ''\<newline>- '' @ content e2"
    by (simp add: previous_context_cases)
  have p1: "\<forall>e1. hist s = [e1] \<longrightarrow> ?prev = ''- '' @ content e1"
    by (simp add: previous_context_cases)
  have p0: "hist s = [] \<longrightarrow> ?prev = []"
    by (simp add: previous_context_cases)
  have r: "handle_followup ev s = Returned ?s'"
    using handle_followup_answer [OF assms(1,2,5) q] assms(3) by simp
  have e1: "step ?s' = Some ''followup''"
    by simp
  have e2: "hist ?s' = hist s @ [\<lparr>role = ''user'', content = ''Follow-up question: '' @ q\<rparr>,
                 \<lparr>role = ''assistant'', content = ''Follow-up response: '' @ ?answer\<rparr>]"
    by (simp add: hist_def)
  have e3: "length (hist ?s') = length (hist s) + 2"
    by (simp add: hist_def)
  have e4: "msgs ?s' = msgs s @ [\<lparr>role = ''assistant'', content = ?answer\<rparr>]"
    by (simp add: msgs_def)
  have e5: "length (msgs ?s') = length (msgs s) + 1"
    by (simp add: msgs_def)
  show ?thesis
    apply (rule exI [of _ ?s'], rule exI [of _ ?answer], rule exI [of _ ?prev])
    apply (intro conjI)
              apply (rule r)
             apply (rule e1)
            apply (rule e2)
           apply (rule e3)
          apply (rule e4)
         apply (rule e5)
        apply (rule c)
       apply (rule p3)
      apply (rule p2)
     apply (rule p1)
    apply (rule p0)
    done
qed

theorem handle_followup_answers_question_witness:
  "name (asha_later ''and gold?'') = Some ''Asha''
   \<and> salary (asha_later ''and gold?'') = Some 50000
   \<and> initial_advice (asha_later ''and gold?'') = Some ''Save more.''
   \<and> followup_question (asha_later ''and gold?'') = Some ''and gold?''
   \<and> \<not> wants_end echo_env ''and gold?''
   \<and> length (hist (asha_later ''and gold?'')) = 5
   \<and> (\<exists>s'. handle_followup echo_env (asha_later ''and gold?'') = Returned s'
         \<and> step s' = Some ''followup''
         \<and> length (hist s') = 7
         \<and> msgs s' = msgs (asha_later ''and gold?'')
               @ [\<lparr>role = ''assistant'', content = asha_prompt\<rparr>])"
proof -
  let ?s = "asha_later ''and gold?''"
  have n: "name ?s = Some ''Asha''" and v: "salary ?s = Some 50000"
    and a: "initial_advice ?s = Some ''Save more.''"
    and q: "followup_question ?s = Some ''and gold?''"
    by (simp_all add: asha_later_def asha_asks_def asha_def)
  have h: "hist ?s =
     [\<lparr>role = ''system'', content = ''Initial advice given for Asha (salary: $50000.0): Save more.''\<rparr>,
      \<lparr>role = ''user'', content = ''Follow-up question: what about tax saving?''\<rparr>]
     @ [\<lparr>role = ''assistant'', content = ''Follow-up response: Use ELSS.''\<rparr>,
      \<lparr>role = ''user'', content = ''Follow-up question: and insurance?''\<rparr>,
      \<lparr>role = ''assistant'', content = ''Follow-up response: Buy term cover.''\<rparr>]"
    by (simp add: asha_later_def hist_def)
  have l: "length (hist ?s) = 5" by (simp add: h)
  have sf: "str_float echo_env 50000 = ''50000.0''"
    by (simp add: echo_env_def demo_env_def)
  from handle_followup_answers_question [OF n v a q gold [of echo_env]]
  obtain s' answer prev where r: "handle_followup echo_env ?s = Returned s'"
    and st: "step s' = Some ''followup''"
    and lh: "length (hist s') = length (hist ?s) + 2"
    and ms: "msgs s' = msgs ?s @ [\<lparr>role = ''assistant'', content = answer\<rparr>]"
    and ans: "answer = ask_gemini echo_env (''You are a friendly and knowledgeable Indian financial advisor. Here's the context:\<newline>- User's name: '' @ ''Asha'' @ ''\<newline>- Monthly salary: '' @ str_float echo_env 50000 @ '' INR\<newline>- Initial advice given: '' @ ''Save more.'' @ ''\<newline>\<newline>Previous conversation:\<newline>'' @ prev @ ''\<newline>\<newline>The user is asking a follow-up question: \"'' @ ''and gold?'' @ ''\"\<newline>\<newline>Provide a helpful, detailed answer that builds on the previous advice. Keep it friendly and practical. If the question is unclear, ask for clarification. End by asking if they have any other questions.'')"
    and p3: "\<forall>older e1 e2 e3. hist ?s = older @ [e1, e2, e3] \<longrightarrow>
           prev = ''- '' @ content e1 @ ''\<newline>- '' @ content e2 @ ''\<newline>- '' @ content e3"
    by (elim exE conjE)
  from p3 h have "prev = ''- '' @ ''Follow-up response: Use ELSS.'' @ ''\<newline>- ''
      @ ''Follow-up question: and insurance?'' @ ''\<newline>- ''
      @ ''Follow-up response: Buy term cover.''"
    by (metis message.select_convs(2))
  with ans sf have "answer = ask_gemini echo_env asha_prompt"
    by (simp add: asha_prompt_def)
  with echo_asha_prompt have "answer = asha_prompt" by simp
  with r st lh ms l n v a q gold [of echo_env] show ?thesis by simp
qed




text \<open>
  C8. When the request names a conversation whose stored state is not empty and
  whose step is none of \<open>ask_name\<close>, \<open>ask_salary\<close>, \<open>advice\<close>, \<open>followup\<close>,
  \<open>conversation_ended\<close>, the handler raises the 400 error that asks for a new
  conversation and leaves the store with that conversation removed and nothing else
  changed; the result does not depend on the environment, so no transition and no
  completion took part.
\<close>

theorem chat_rejects_unknown_step:
  assumes "ui_conversation_id inp = Some c" and "c \<noteq> []"
    and "conversation_states c = Some st" and "st \<noteq> empty_state"
    and "step st \<notin> {Some ''ask_name'', Some ''ask_salary'', Some ''advice'',
                       Some ''followup'', Some ''conversation_ended''}"
  shows "chat ev conversation_states inp =
    (Inl (HTTPException 400 ''Invalid conversation state. Please start a new conversation.''),
     conversation_states(c := None))"
  using assms by (simp add: chat_def)

theorem chat_rejects_unknown_step_witness:
  "ui_conversation_id (request ''c-7'' None) = Some ''c-7''
   \<and> [''c-7'' \<mapsto> asha\<lparr>step := Some ''paused''\<rparr>] ''c-7'' = Some (asha\<lparr>step := Some ''paused''\<rparr>)
   \<and> asha\<lparr>step := Some ''paused''\<rparr> \<noteq> empty_state
   \<and> step (asha\<lparr>step := Some ''paused''\<rparr>)
        \<notin> {Some ''ask_name'', Some ''ask_salary'', Some ''advice'',
            Some ''followup'', Some ''conversation_ended''}
   \<and> chat demo_env [''c-7'' \<mapsto> asha\<lparr>step := Some ''paused''\<rparr>] (request ''c-7'' None) =
       (Inl (HTTPException 400
          ''Invalid conversation state. Please start a new conversation.''),
        [''c-7'' \<mapsto> asha\<lparr>step := Some ''paused''\<rparr>](''c-7'' := None))"
proof -
  let ?st = "asha\<lparr>step := Some ''paused''\<rparr>"
  have i: "ui_conversation_id (request ''c-7'' None) = Some ''c-7''" and c: "''c-7'' \<noteq> []"
    by (simp_all add: request_def)
  have l: "[''c-7'' \<mapsto> ?st] ''c-7'' = Some ?st" by simp
  have ne: "?st \<noteq> empty_state"
  proof
    assume "?st = empty_state"
    then have "step ?st = step empty_state" by (rule arg_cong)
    then show False by (simp add: empty_state_def)
  qed
  have u: "step ?st \<notin> {Some ''ask_name'', Some ''ask_salary'', Some ''advice'',
                        Some ''followup'', Some ''conversation_ended''}"
    by simp
  from chat_rejects_unknown_step
    [where inp = "request ''c-7'' None" and c = "''c-7''" and st = ?st
       and conversation_states = "[''c-7'' \<mapsto> ?st]" and ev = demo_env, OF i c l ne u]
    i l ne u
  show ?thesis by blast
qed

text \<open>
  C9. Whatever the input state, the step after \<open>handle_followup\<close> is \<open>followup\<close> or
  \<open>conversation_ended\<close>, and the outcome does not depend on the step of the input.
  In particular a state at \<open>conversation_ended\<close> with \<open>name\<close> and \<open>salary\<close> set and a
  question that matches no termination phrase is answered and is at \<open>followup\<close>
  again.
\<close>

theorem handle_followup_ignores_input_step:
  "step (state_of (handle_followup ev s)) \<in> {Some ''followup'', Some ''conversation_ended''}
   \<and> handle_followup ev (s\<lparr>step := x\<rparr>) = handle_followup ev s
   \<and> (step s = Some ''conversation_ended'' \<and> name s = Some n \<and> salary s = Some v
        \<and> \<not> wants_end ev (case followup_question s of None \<Rightarrow> [] | Some q \<Rightarrow> q)
      \<longrightarrow> (\<exists>s'. handle_followup ev s = Returned s' \<and> step s' = Some ''followup''))"
proof -
  have 1: "step (state_of (handle_followup ev s))
             \<in> {Some ''followup'', Some ''conversation_ended''}"
    by (simp add: handle_followup_step)
  have 2: "handle_followup ev (s\<lparr>step := x\<rparr>) = handle_followup ev s"
    by (simp add: handle_followup_def graph_defs)
  have 3: "\<exists>s'. handle_followup ev s = Returned s' \<and> step s' = Some ''followup''"
    if "name s = Some n" "salary s = Some v"
      "\<not> wants_end ev (case followup_question s of None \<Rightarrow> [] | Some q \<Rightarrow> q)"
    using handle_followup_answer [OF that refl] by simp
  from 1 2 3 show ?thesis by blast
qed

theorem handle_followup_ignores_input_step_witness:
  "step (asha_asks ''what about tax saving?''\<lparr>step := Some ''conversation_ended''\<rparr>)
     = Some ''conversation_ended''
   \<and> \<not> wants_end demo_env ''what about tax saving?''
   \<and> (\<exists>s'. handle_followup demo_env
              (asha_asks ''what about tax saving?''\<lparr>step := Some ''conversation_ended''\<rparr>)
            = Returned s' \<and> step s' = Some ''followup'')"
proof -
  let ?s = "asha_asks ''what about tax saving?''\<lparr>step := Some ''conversation_ended''\<rparr>"
  have e: "step ?s = Some ''conversation_ended''" and n: "name ?s = Some ''Asha''"
    and v: "salary ?s = Some 50000"
    and q: "(case followup_question ?s of None \<Rightarrow> [] | Some q \<Rightarrow> q) = ''what about tax saving?''"
    by (simp_all add: asha_asks_def asha_def)
  from q tax_saving [of demo_env]
  have w: "\<not> wants_end demo_env (case followup_question ?s of None \<Rightarrow> [] | Some q \<Rightarrow> q)"
    by simp
  from handle_followup_ignores_input_step [of demo_env ?s _ "''Asha''" 50000] e n v w
    tax_saving [of demo_env]
  show ?thesis by blast
qed

text \<open>
  C10. When \<open>followup_question\<close> is absent, the question is the empty string, which
  matches no termination phrase: the step after \<open>handle_followup\<close> is \<open>followup\<close>,
  and with \<open>name\<close> and \<open>salary\<close> set the call returns, having asked the completion
  service with the empty question and appended two history entries and one message.
\<close>

theorem handle_followup_without_question:
  assumes "followup_question s = None"
  shows "\<not> wants_end ev []
     \<and> step (state_of (handle_followup ev s)) = Some ''followup''
     \<and> (name s = Some n \<and> salary s = Some v \<longrightarrow>
         (\<exists>s' answer. handle_followup ev s = Returned s'
           \<and> answer = ask_gemini ev (followup_context ev n v (initial_advice s) (hist s) [])
           \<and> step s' = Some ''followup''
           \<and> hist s' = hist s @ [\<lparr>role = ''user'', content = ''Follow-up question: ''\<rparr>,
                  \<lparr>role = ''assistant'', content = ''Follow-up response: '' @ answer\<rparr>]
           \<and> msgs s' = msgs s @ [\<lparr>role = ''assistant'', content = answer\<rparr>]))"
proof -
  have q: "[] = (case followup_question s of None \<Rightarrow> [] | Some x \<Rightarrow> x)"
    using assms by simp
  have st: "step (state_of (handle_followup ev s)) = Some ''followup''"
    using assms empty_question by (simp add: handle_followup_step)
  have "\<exists>s' answer. handle_followup ev s = Returned s'
           \<and> answer = ask_gemini ev (followup_context ev n v (initial_advice s) (hist s) [])
           \<and> step s' = Some ''followup''
           \<and> hist s' = hist s @ [\<lparr>role = ''user'', content = ''Follow-up question: ''\<rparr>,
                  \<lparr>role = ''assistant'', content = ''Follow-up response: '' @ answer\<rparr>]
           \<and> msgs s' = msgs s @ [\<lparr>role = ''assistant'', content = answer\<rparr>]"
    if "name s = Some n" "salary s = Some v"
    using handle_followup_answer [OF that empty_question [of ev] q]
    by (simp add: msgs_def hist_def)
  with st empty_question show ?thesis by blast
qed

theorem handle_followup_without_question_witness:
  "followup_question asha = None \<and> name asha = Some ''Asha'' \<and> salary asha = Some 50000
   \<and> (\<exists>s'. handle_followup demo_env asha = Returned s' \<and> step s' = Some ''followup''
         \<and> length (hist s') = 2 \<and> length (msgs s') = 3)"
proof -
  have q: "followup_question asha = None" and n: "name asha = Some ''Asha''"
    and v: "salary asha = Some 50000"
    by (simp_all add: asha_def empty_state_def)
  have h: "hist asha = []" and m: "length (msgs asha) = 2"
    by (simp_all add: asha_def hist_def msgs_def empty_state_def)
  from handle_followup_without_question [OF q, of demo_env "''Asha''" 50000] q n v h m
  show ?thesis by auto
qed

end
